theory Spec2Isabelle
  imports Main "HOL-Library.Char_ord" "HOL-Library.List_Lexorder"
begin

section \<open>The stored tables\<close>

text \<open>
  The schema of \<^verbatim>\<open>DatabaseController.create_tables\<close>, restricted to the four tables the
  order core reads and writes. A table is the list of its rows in insertion order. The
  timestamp columns (\<^verbatim>\<open>created_at\<close>, \<^verbatim>\<open>updated_at\<close>, \<^verbatim>\<open>date\<close>) are left out: they are filled
  from the clock and no operation below reads them. Money columns are declared REAL and
  quantities INTEGER in the schema; both are modelled as unbounded integers, so every sum
  and product is exact.
\<close>

record product_row =
  p_id :: nat
  p_name :: string
  p_description :: "string option"
  p_price :: int
  p_cost :: "int option"
  p_stock :: int
  p_unit :: string
  p_category :: "string option"

record orders_row =
  o_id :: nat
  o_order_number :: string
  o_customer_id :: "nat option"
  o_order_date :: "string option"
  o_due_date :: "string option"
  o_status :: string
  o_total_amount :: int
  o_paid_amount :: int
  o_notes :: "string option"

record order_items_row =
  oi_id :: nat
  oi_order_id :: nat
  oi_product_id :: nat
  oi_quantity :: int
  oi_price :: int
  oi_total :: int

record financial_transactions_row =
  ft_id :: nat
  ft_type :: string
  ft_category :: string
  ft_amount :: int
  ft_description :: string
  ft_reference_id :: string
  ft_reference_type :: string
  ft_payment_method :: string

text \<open>
  The database file. Every model object opens its own \<^verbatim>\<open>DatabaseController\<close> on the same
  file and \<^verbatim>\<open>execute_query\<close> commits after each statement, so the file is one shared state
  that each statement updates at once. The \<open>seq_\<close> fields are the rows of
  \<^verbatim>\<open>sqlite_sequence\<close> that AUTOINCREMENT keeps for each table.
\<close>

record database =
  products :: "product_row list"
  orders :: "orders_row list"
  order_items :: "order_items_row list"
  financial_transactions :: "financial_transactions_row list"
  seq_orders :: nat
  seq_order_items :: nat
  seq_financial_transactions :: nat

text \<open>
  \<^verbatim>\<open>INTEGER PRIMARY KEY AUTOINCREMENT\<close>: the new row id is one more than the largest id
  the table has ever held.
\<close>

definition next_rowid :: "nat \<Rightarrow> nat list \<Rightarrow> nat" where
  "next_rowid seq ids = Suc (fold max ids seq)"

section \<open>Text helpers of the Python side\<close>

definition digit_char :: "nat \<Rightarrow> char" where
  "digit_char d = char_of (48 + d)"

fun str_nat :: "nat \<Rightarrow> string" where
  "str_nat n = (if n < 10 then [digit_char n] else str_nat (n div 10) @ [digit_char (n mod 10)])"

declare str_nat.simps [simp del]

text \<open>\<^verbatim>\<open>str(x)\<close> for an integer id that may be \<^verbatim>\<open>None\<close>, and for a string that may be.\<close>

definition str_id :: "nat option \<Rightarrow> string" where
  "str_id i = (case i of None \<Rightarrow> ''None'' | Some n \<Rightarrow> str_nat n)"

definition str_opt :: "string option \<Rightarrow> string" where
  "str_opt s = (case s of None \<Rightarrow> ''None'' | Some t \<Rightarrow> t)"

section \<open>Product (models/product.py)\<close>

record Product =
  pid :: "nat option"
  name :: string
  description :: "string option"
  price :: int
  cost :: "int option"
  stock :: int
  unit_p :: string
  category :: "string option"

definition product_of_row :: "product_row \<Rightarrow> Product" where
  "product_of_row data =
     \<lparr>pid = Some (p_id data), name = p_name data, description = p_description data,
      price = p_price data, cost = p_cost data, stock = p_stock data,
      unit_p = p_unit data, category = p_category data\<rparr>"

text \<open>\<^verbatim>\<open>Product.get_by_id\<close>: the first row of \<^verbatim>\<open>SELECT * FROM products WHERE id = ?\<close>.\<close>

definition get_by_id :: "nat \<Rightarrow> database \<Rightarrow> Product option" where
  "get_by_id product_id db =
     (case filter (\<lambda>r. p_id r = product_id) (products db) of
        [] \<Rightarrow> None
      | data # _ \<Rightarrow> Some (product_of_row data))"

text \<open>
  \<^verbatim>\<open>Product.update_stock\<close>: the new stock is computed from the object's own \<^verbatim>\<open>stock\<close> field and
  written to every row with the object's id. There is no comparison with zero.
\<close>

definition update_stock :: "Product \<Rightarrow> int \<Rightarrow> database \<Rightarrow> bool \<times> Product \<times> database" where
  "update_stock self quantity db =
     (case pid self of
        None \<Rightarrow> (False, self, db)
      | Some i \<Rightarrow>
          let new_stock = stock self + quantity
          in (True, self\<lparr>stock := new_stock\<rparr>,
              db\<lparr>products := map (\<lambda>r. if p_id r = i then r\<lparr>p_stock := new_stock\<rparr> else r)
                                 (products db)\<rparr>))"

section \<open>Order (models/order.py)\<close>

record Order =
  oid :: "nat option"
  order_number :: "string option"
  customer_id :: "nat option"
  order_date :: "string option"
  due_date :: "string option"
  status :: string
  total_amount :: int
  paid_amount :: int
  notes_o :: "string option"

text \<open>\<^verbatim>\<open>Order.__init__\<close> with every argument at its default.\<close>

definition new_Order :: Order where
  "new_Order =
     \<lparr>oid = None, order_number = None, customer_id = None, order_date = None,
      due_date = None, status = ''pending'', total_amount = 0, paid_amount = 0,
      notes_o = None\<rparr>"

text \<open>\<^verbatim>\<open>SELECT COALESCE(SUM(total), 0) FROM order_items WHERE order_id = ?\<close>\<close>

definition sum_total :: "nat \<Rightarrow> database \<Rightarrow> int" where
  "sum_total i db = sum_list (map oi_total (filter (\<lambda>r. oi_order_id r = i) (order_items db)))"

text \<open>
  \<^verbatim>\<open>Order.update_total\<close>. The aggregate query always returns one row, so the
  \<^verbatim>\<open>if result\<close> branch is always taken.
\<close>

definition update_total :: "Order \<Rightarrow> database \<Rightarrow> bool \<times> Order \<times> database" where
  "update_total self db =
     (case oid self of
        None \<Rightarrow> (False, self, db)
      | Some i \<Rightarrow>
          let total = sum_total i db
          in (True, self\<lparr>total_amount := total\<rparr>,
              db\<lparr>orders := map (\<lambda>r. if o_id r = i then r\<lparr>o_total_amount := total\<rparr> else r)
                               (orders db)\<rparr>))"

text \<open>
  \<^verbatim>\<open>Order.add_item\<close>. The result is the new line's id, or \<open>None\<close> for the \<^verbatim>\<open>False\<close> the
  source returns. The line is inserted and committed first, then the total is recomputed,
  then the stock is changed if the product is found.
\<close>

definition add_item :: "Order \<Rightarrow> nat \<Rightarrow> int \<Rightarrow> int \<Rightarrow> database \<Rightarrow> nat option \<times> Order \<times> database" where
  "add_item self product_id quantity price' db =
     (case oid self of
        None \<Rightarrow> (None, self, db)
      | Some i \<Rightarrow>
          let total = quantity * price';
              item_id = next_rowid (seq_order_items db) (map oi_id (order_items db));
              db1 = db\<lparr>order_items := order_items db @
                         [\<lparr>oi_id = item_id, oi_order_id = i, oi_product_id = product_id,
                           oi_quantity = quantity, oi_price = price', oi_total = total\<rparr>],
                       seq_order_items := item_id\<rparr>;
              (_, self1, db2) = update_total self db1;
              db3 = (case get_by_id product_id db2 of
                       None \<Rightarrow> db2
                     | Some product \<Rightarrow> snd (snd (update_stock product (- quantity) db2)))
          in (Some item_id, self1, db3))"

text \<open>
  \<^verbatim>\<open>Order.remove_item\<close>. The line is looked up by its id alone; the query does not mention
  the order.
\<close>

definition remove_item :: "Order \<Rightarrow> nat \<Rightarrow> database \<Rightarrow> bool \<times> Order \<times> database" where
  "remove_item self item_id db =
     (case oid self of
        None \<Rightarrow> (False, self, db)
      | Some i \<Rightarrow>
          (case filter (\<lambda>r. oi_id r = item_id) (order_items db) of
             [] \<Rightarrow> (False, self, db)
           | item # _ \<Rightarrow>
               let db1 = (case get_by_id (oi_product_id item) db of
                            None \<Rightarrow> db
                          | Some product \<Rightarrow> snd (snd (update_stock product (oi_quantity item) db)));
                   db2 = db1\<lparr>order_items := filter (\<lambda>r. oi_id r \<noteq> item_id) (order_items db1)\<rparr>;
                   (_, self1, db3) = update_total self db2
               in (True, self1, db3)))"

text \<open>\<^verbatim>\<open>Order.record_payment\<close>: one row appended to \<^verbatim>\<open>financial_transactions\<close>.\<close>

definition record_payment :: "Order \<Rightarrow> int \<Rightarrow> string \<Rightarrow> database \<Rightarrow> bool \<times> database" where
  "record_payment self amount payment_method db =
     (let row_id = next_rowid (seq_financial_transactions db)
                     (map ft_id (financial_transactions db))
      in (True,
          db\<lparr>financial_transactions := financial_transactions db @
                [\<lparr>ft_id = row_id, ft_type = ''income'', ft_category = ''payment'',
                  ft_amount = amount,
                  ft_description = ''Payment for order '' @ str_opt (order_number self),
                  ft_reference_id = str_id (oid self), ft_reference_type = ''order'',
                  ft_payment_method = payment_method\<rparr>],
             seq_financial_transactions := row_id\<rparr>))"

text \<open>
  \<^verbatim>\<open>Order.add_payment\<close>. The new paid amount is computed from the object's field; the only
  status the method ever writes is \<^verbatim>\<open>'paid'\<close>.
\<close>

definition add_payment :: "Order \<Rightarrow> int \<Rightarrow> string \<Rightarrow> database \<Rightarrow> bool \<times> Order \<times> database" where
  "add_payment self amount payment_method db =
     (case oid self of
        None \<Rightarrow> (False, self, db)
      | Some i \<Rightarrow>
          let new_paid_amount = paid_amount self + amount;
              db1 = db\<lparr>orders := map (\<lambda>r. if o_id r = i then r\<lparr>o_paid_amount := new_paid_amount\<rparr> else r)
                                     (orders db)\<rparr>;
              self1 = self\<lparr>paid_amount := new_paid_amount\<rparr>;
              (self2, db2) =
                (if total_amount self1 \<le> paid_amount self1
                 then (self1\<lparr>status := ''paid''\<rparr>,
                       db1\<lparr>orders := map (\<lambda>r. if o_id r = i then r\<lparr>o_status := ''paid''\<rparr> else r)
                                         (orders db1)\<rparr>)
                 else (self1, db1));
              (_, db3) = record_payment self2 amount payment_method db2
          in (True, self2, db3))"

text \<open>\<^verbatim>\<open>Order.delete\<close>: the order's lines, then the order row. No other table is touched.\<close>

definition delete :: "Order \<Rightarrow> database \<Rightarrow> bool \<times> Order \<times> database" where
  "delete self db =
     (case oid self of
        None \<Rightarrow> (False, self, db)
      | Some i \<Rightarrow>
          (True, self,
           db\<lparr>order_items := filter (\<lambda>r. oi_order_id r \<noteq> i) (order_items db),
              orders := filter (\<lambda>r. o_id r \<noteq> i) (orders db)\<rparr>))"

section \<open>Number generation (controllers/database_controller.py)\<close>

text \<open>
  SQLite's \<^verbatim>\<open>LIKE\<close> with its default settings: \<^verbatim>\<open>%\<close> matches any run of characters,
  \<^verbatim>\<open>_\<close> any single character, and ASCII letters match without regard to case. The first
  argument is the pattern.
\<close>

definition lower_ascii :: "char \<Rightarrow> char" where
  "lower_ascii c =
     (if CHR ''A'' \<le> c \<and> c \<le> CHR ''Z'' then char_of (of_char c + (32::nat)) else c)"

fun sql_like :: "string \<Rightarrow> string \<Rightarrow> bool" where
  "sql_like [] [] = True"
| "sql_like [] (c # cs) = False"
| "sql_like (p # ps) [] = (p = CHR ''%'' \<and> sql_like ps [])"
| "sql_like (p # ps) (c # cs) =
     (if p = CHR ''%'' then sql_like ps (c # cs) \<or> sql_like (p # ps) cs
      else (p = CHR ''_'' \<or> lower_ascii p = lower_ascii c) \<and> sql_like ps cs)"

text \<open>
  \<^verbatim>\<open>ORDER BY field DESC LIMIT 1\<close> on a TEXT column: the greatest value in byte order, as a
  list of at most one row.
\<close>

definition order_by_desc_limit_1 :: "string list \<Rightarrow> string list" where
  "order_by_desc_limit_1 xs = (case xs of [] \<Rightarrow> [] | x # ys \<Rightarrow> [fold max ys x])"

text \<open>The slice \<^verbatim>\<open>s[-4:]\<close>: the last four characters, or all of a shorter string.\<close>

definition last4 :: "string \<Rightarrow> string" where
  "last4 s = drop (length s - 4) s"

text \<open>
  Python's \<^verbatim>\<open>int(s)\<close> on ASCII text: surrounding whitespace is dropped, one sign is
  allowed, then decimal digits, single underscores allowed between digits. \<open>None\<close> is
  the \<^verbatim>\<open>ValueError\<close>.
\<close>

definition is_digit :: "char \<Rightarrow> bool" where
  "is_digit c = (CHR ''0'' \<le> c \<and> c \<le> CHR ''9'')"

definition digit_val :: "char \<Rightarrow> nat" where
  "digit_val c = of_char c - 48"

definition py_isspace :: "char \<Rightarrow> bool" where
  "py_isspace c = (let k = (of_char c :: nat) in (9 \<le> k \<and> k \<le> 13) \<or> (28 \<le> k \<and> k \<le> 32))"

definition py_strip :: "string \<Rightarrow> string" where
  "py_strip s = rev (dropWhile py_isspace (rev (dropWhile py_isspace s)))"

fun parse_digits :: "string \<Rightarrow> nat \<Rightarrow> nat option" where
  "parse_digits [] acc = Some acc"
| "parse_digits [c] acc = (if is_digit c then Some (acc * 10 + digit_val c) else None)"
| "parse_digits (c # d # ds) acc =
     (if is_digit c then parse_digits (d # ds) (acc * 10 + digit_val c)
      else if c = CHR ''_'' \<and> is_digit d then parse_digits ds (acc * 10 + digit_val d)
      else None)"

definition parse_unsigned :: "string \<Rightarrow> nat option" where
  "parse_unsigned s =
     (case s of [] \<Rightarrow> None
      | c # cs \<Rightarrow> if is_digit c then parse_digits cs (digit_val c) else None)"

definition py_int :: "string \<Rightarrow> int option" where
  "py_int s =
     (case py_strip s of
        [] \<Rightarrow> None
      | c # cs \<Rightarrow>
          if c = CHR ''-'' then map_option (\<lambda>n. - int n) (parse_unsigned cs)
          else if c = CHR ''+'' then map_option int (parse_unsigned cs)
          else map_option int (parse_unsigned (c # cs)))"

text \<open>The format \<^verbatim>\<open>{sequence:04d}\<close>: zero padding to width four, the sign counted in.\<close>

definition zfill :: "nat \<Rightarrow> string \<Rightarrow> string" where
  "zfill w s = replicate (w - length s) (CHR ''0'') @ s"

definition format_04d :: "int \<Rightarrow> string" where
  "format_04d v =
     (if v < 0 then CHR ''-'' # zfill 3 (str_nat (nat (- v))) else zfill 4 (str_nat (nat v)))"

text \<open>
  The four decimal digits of a number below 10000, most significant first: what
  \<open>format_04d\<close> prints for it (lemma \<open>format_04d_four\<close>).
\<close>

definition four :: "nat \<Rightarrow> string" where
  "four n = [digit_char (n div 10 div 10 div 10), digit_char (n div 10 div 10 mod 10),
             digit_char (n div 10 mod 10), digit_char (n mod 10)]"

text \<open>
  \<^verbatim>\<open>DatabaseController.generate_number\<close>. \<open>date_str\<close> is what
  \<^verbatim>\<open>datetime.now().strftime("%Y%m%d")\<close> returned; \<open>field_values\<close> is the column
  \<^verbatim>\<open>field\<close> of \<^verbatim>\<open>table\<close>.
\<close>

definition generate_number :: "string \<Rightarrow> string \<Rightarrow> string list \<Rightarrow> string" where
  "generate_number prefix date_str field_values =
     (let result = order_by_desc_limit_1
                     (filter (sql_like (prefix @ date_str @ ''%'')) field_values);
          sequence = (case result of
                        [] \<Rightarrow> 1
                      | last_number # _ \<Rightarrow>
                          (case py_int (last4 last_number) of
                             None \<Rightarrow> 1
                           | Some v \<Rightarrow> v + 1))
      in prefix @ date_str @ format_04d sequence)"

section \<open>Saving an order\<close>

definition row_of_Order :: "nat \<Rightarrow> string \<Rightarrow> Order \<Rightarrow> orders_row" where
  "row_of_Order i number self =
     \<lparr>o_id = i, o_order_number = number, o_customer_id = customer_id self,
      o_order_date = order_date self, o_due_date = due_date self, o_status = status self,
      o_total_amount = total_amount self, o_paid_amount = paid_amount self,
      o_notes = notes_o self\<rparr>"

text \<open>
  \<^verbatim>\<open>Order.save\<close>. \<^verbatim>\<open>order_number\<close> is \<^verbatim>\<open>TEXT UNIQUE NOT NULL\<close>: a statement that breaks the
  constraint raises, the statement is rolled back and \<^verbatim>\<open>save\<close> returns \<^verbatim>\<open>False\<close>.
\<close>

definition save :: "Order \<Rightarrow> string \<Rightarrow> database \<Rightarrow> bool \<times> Order \<times> database" where
  "save self date_str db =
     (case oid self of
        None \<Rightarrow>
          let number = (case order_number self of
                          None \<Rightarrow> generate_number ''ORD'' date_str (map o_order_number (orders db))
                        | Some s \<Rightarrow>
                            if s = [] then generate_number ''ORD'' date_str (map o_order_number (orders db))
                            else s);
              self1 = self\<lparr>order_number := Some number\<rparr>
          in if number \<in> set (map o_order_number (orders db)) then (False, self1, db)
             else
               let new_id = next_rowid (seq_orders db) (map o_id (orders db))
               in (True, self1\<lparr>oid := Some new_id\<rparr>,
                   db\<lparr>orders := orders db @ [row_of_Order new_id number self1],
                      seq_orders := new_id\<rparr>)
      | Some i \<Rightarrow>
          if filter (\<lambda>r. o_id r = i) (orders db) = [] then (True, self, db)
          else
            (case order_number self of
               None \<Rightarrow> (False, self, db)
             | Some number \<Rightarrow>
                 if number \<in> set (map o_order_number (filter (\<lambda>r. o_id r \<noteq> i) (orders db)))
                 then (False, self, db)
                 else (True, self,
                       db\<lparr>orders := map (\<lambda>r. if o_id r = i then row_of_Order i number self else r)
                                        (orders db)\<rparr>)))"

section \<open>A small shop\<close>

text \<open>
  Concrete states used to run the operations: a catalogue with one product, an order
  created with the constructor's defaults, and that order after two units of the product
  were added at 15000000 each.
\<close>

definition empty_db :: database where
  "empty_db = \<lparr>products = [], orders = [], order_items = [], financial_transactions = [],
               seq_orders = 0, seq_order_items = 0, seq_financial_transactions = 0\<rparr>"

definition laptop :: product_row where
  "laptop = \<lparr>p_id = 1, p_name = ''Laptop'', p_description = None, p_price = 15000000,
             p_cost = None, p_stock = 10, p_unit = ''pcs'', p_category = None\<rparr>"

definition shop_db :: database where
  "shop_db = empty_db\<lparr>products := [laptop]\<rparr>"

definition created :: "bool \<times> Order \<times> database" where
  "created = save new_Order ''20240101'' shop_db"

definition scenario_A :: "nat option \<times> Order \<times> database" where
  "scenario_A = add_item (fst (snd created)) 1 2 15000000 (snd (snd created))"

text \<open>
  A second order created after the first; the call of \<open>remove_item\<close> on it with the id of
  the first order's line; and an order that was saved with a total of 100 and no line,
  then given a line and relieved of it.
\<close>

definition second_order :: "bool \<times> Order \<times> database" where
  "second_order = save new_Order ''20240101'' (snd (snd scenario_A))"

definition cross_removed :: "bool \<times> Order \<times> database" where
  "cross_removed = remove_item (fst (snd second_order)) 1 (snd (snd second_order))"




section \<open>Supporting lemmas\<close>





















lemma delete_products: "products (snd (snd (delete self db))) = products db"
  by (simp add: delete_def split: option.splits)




section \<open>Operations on an order that was never saved\<close>

text \<open>
  C10. An \<open>Order\<close> whose \<open>oid\<close> is \<open>None\<close> has never been saved. Each of \<open>delete\<close>,
  \<open>add_item\<close>, \<open>remove_item\<close>, \<open>update_total\<close> and \<open>add_payment\<close> then returns its
  failure value at once and hands back the object and the database exactly as they were:
  no row of any table is written.
\<close>

theorem unsaved_order_is_rejected:
  assumes "oid self = None"
  shows "delete self db = (False, self, db)
       \<and> add_item self product_id quantity pr db = (None, self, db)
       \<and> remove_item self item_id db = (False, self, db)
       \<and> update_total self db = (False, self, db)
       \<and> add_payment self amount payment_method db = (False, self, db)"
  using assms
  by (simp add: delete_def add_item_def remove_item_def update_total_def add_payment_def)

theorem unsaved_order_is_rejected_witness:
  "oid new_Order = None
   \<and> delete new_Order shop_db = (False, new_Order, shop_db)
   \<and> add_item new_Order 1 2 15000000 shop_db = (None, new_Order, shop_db)
   \<and> remove_item new_Order 1 shop_db = (False, new_Order, shop_db)
   \<and> update_total new_Order shop_db = (False, new_Order, shop_db)
   \<and> add_payment new_Order 5 ''cash'' shop_db = (False, new_Order, shop_db)"
proof -
  have h: "oid new_Order = None" by (simp add: new_Order_def)
  from unsaved_order_is_rejected [OF h, of shop_db 1 2 15000000 1 5 "''cash''"] h
  show ?thesis by simp
qed

section \<open>Stock adjustment\<close>




section \<open>Deleting an order\<close>

text \<open>
  C4. \<open>delete\<close> removes the order's lines and the order row and leaves the products
  table as it is. Run on the order of scenario A (ten units in stock, two sold): the line
  and the order are gone and the stock is still eight, where \<open>remove_item\<close> on the same
  line would have put the two units back.
\<close>

theorem delete_keeps_consumed_stock:
  "map p_stock (products shop_db) = [10]
   \<and> map oi_quantity (order_items (snd (snd scenario_A))) = [2]
   \<and> map p_stock (products (snd (snd scenario_A))) = [8]
   \<and> fst (delete (fst (snd scenario_A)) (snd (snd scenario_A))) = True
   \<and> order_items (snd (snd (delete (fst (snd scenario_A)) (snd (snd scenario_A))))) = []
   \<and> orders (snd (snd (delete (fst (snd scenario_A)) (snd (snd scenario_A))))) = []
   \<and> map p_stock (products (snd (snd (delete (fst (snd scenario_A)) (snd (snd scenario_A)))))) = [8]"
  by code_simp

section \<open>Totals and lines\<close>

text \<open>
  C1. \<open>remove_item\<close> finds the line by its id alone. Called on the second order with the id
  of the first order's line, it deletes that line and recomputes the total of the second
  order only: the first order keeps its stored total of 30000000 while the sum over its
  lines is now 0.
\<close>

theorem remove_item_of_other_order:
  "oid (fst (snd second_order)) = Some 2
   \<and> map oi_id (order_items (snd (snd second_order))) = [1]
   \<and> map oi_order_id (order_items (snd (snd second_order))) = [1]
   \<and> map o_id (orders (snd (snd second_order))) = [1, 2]
   \<and> map o_total_amount (orders (snd (snd second_order))) = [30000000, 0]
   \<and> fst cross_removed = True
   \<and> order_items (snd (snd cross_removed)) = []
   \<and> map o_id (orders (snd (snd cross_removed))) = [1, 2]
   \<and> map o_total_amount (orders (snd (snd cross_removed))) = [30000000, 0]
   \<and> sum_total 1 (snd (snd cross_removed)) = 0"
  by code_simp

section \<open>Adding a line\<close>







section \<open>Order status\<close>



section \<open>Payments\<close>




section \<open>Adding a line and removing it again\<close>




section \<open>Generated numbers\<close>

subsection \<open>The greatest row, the pattern and the order of strings\<close>

















subsection \<open>Four-digit sequences\<close>








lemma zero_digits: "n < 10 \<Longrightarrow> n div 10 = 0" "n < 10 \<Longrightarrow> n mod 10 = (n::nat)"
  by simp_all


lemma length_four: "length (four n) = 4"
  by (simp add: four_def)











subsection \<open>The next number\<close>







end
